theory Spec2Isabelle
  imports Main "HOL-Library.Word"
begin

section \<open>Self-inlining anonymous functions (SelfLambda.cpp)\<close>

text \<open>
  The program folds the syntax tree of a one-argument arithmetic function into a C++
  type (\<^verbatim>\<open>I<i>\<close>, \<^verbatim>\<open>Arg<T>\<close>, \<^verbatim>\<open>Sum<R1,R2>\<close>, \<^verbatim>\<open>Prod<R1,R2>\<close>) and unfolds it
  again with the class template \<^verbatim>\<open>Inline<E>\<close>, whose specialisations are chosen by the
  compiler. The embedding keeps the two stages apart: a C++ type is a term of the
  datatype \<open>ctype\<close>, template instantiation is a function on \<open>ctype\<close> whose result says
  whether the instantiation builds, and what is built is an ordinary HOL function on the
  run-time values.
\<close>

subsection \<open>Types\<close>

text \<open>\<^verbatim>\<open>int\<close> is a 32-bit integer, read as two's complement by \<open>sint\<close>.\<close>

type_synonym cint = "32 word"

text \<open>The arithmetic types the program computes with.\<close>

datatype vtype = TInt | TDouble

text \<open>
  The types the program can name: an arithmetic type, or one of the four node templates
  (lines 68 to 80). \<^verbatim>\<open>template <int i> struct I\<close> takes an \<^verbatim>\<open>int\<close>; \<^verbatim>\<open>Arg\<close>, \<^verbatim>\<open>Sum\<close> and
  \<^verbatim>\<open>Prod\<close> take arbitrary types, with no constraint on them.
\<close>

datatype ctype =
    Scalar vtype
  | I cint
  | Arg ctype
  | Sum ctype ctype
  | Prod ctype ctype

text \<open>
  The outcome of instantiating a template at a call: the build fails, or it yields
  \<open>Built r\<close>. A call that builds only through an implicit conversion between \<^verbatim>\<open>int\<close>
  and \<^verbatim>\<open>double\<close> (an \<^verbatim>\<open>Arg<int>\<close> evaluated at a \<^verbatim>\<open>double\<close>) is reported as \<open>Converts\<close>:
  it builds, and its arithmetic, which mixes the two types, is not described here.
\<close>

datatype 'r build = BuildError | Converts | Built 'r

text \<open>A call that needs both of two instantiations.\<close>

fun both :: "'x build \<Rightarrow> 'y build \<Rightarrow> ('x \<Rightarrow> 'y \<Rightarrow> 'z) \<Rightarrow> 'z build" where
  "both (Built f) (Built g) k = Built (k f g)"
| "both BuildError _ k = BuildError"
| "both _ BuildError k = BuildError"
| "both _ _ k = Converts"

subsection \<open>The inliner\<close>

text \<open>
  The member functions each \<^verbatim>\<open>Inline<E>\<close> declares (lines 84 to 124). The primary
  template is empty; the specialisation for \<^verbatim>\<open>I<i>\<close> declares \<^verbatim>\<open>value\<close>, the other three
  declare \<^verbatim>\<open>at\<close>.
\<close>

datatype member = Member_value | Member_at

fun Inline_members :: "ctype \<Rightarrow> member list" where
  "Inline_members (I i) = [Member_value]"
| "Inline_members (Arg X1) = [Member_at]"
| "Inline_members (Sum E1 E2) = [Member_at]"
| "Inline_members (Prod E1 E2) = [Member_at]"
| "Inline_members (Scalar T) = []"

text \<open>
  \<^verbatim>\<open>Inline< I<i> >::value\<close> (lines 89 to 95):
  \<^verbatim>\<open>static inline int value (int arg) { (void)arg ; return i ; }\<close>
  No other \<^verbatim>\<open>Inline<E>\<close> has a member of that name.
\<close>

fun Inline_value :: "ctype \<Rightarrow> (cint \<Rightarrow> cint) build" where
  "Inline_value (I i) = Built (\<lambda>arg. i)"
| "Inline_value _ = BuildError"

text \<open>
  \<^verbatim>\<open>Inline<E>::at(arg)\<close> for an argument of the arithmetic type \<open>A\<close>, whose values are
  the HOL type \<open>'a\<close>; \<open>+\<close> and \<open>*\<close> on \<open>'a\<close> are the C++ operators of \<open>A\<close>, about
  which nothing is assumed.
  \<^item> \<^verbatim>\<open>Inline< Arg<X1> >::at\<close> (lines 98 to 103) is \<^verbatim>\<open>X1 at (X1 arg) { return arg ; }\<close>.
    An argument of type \<open>A\<close> is passed as it is when \<open>X1\<close> is \<open>A\<close>, is converted when
    \<open>X1\<close> is the other arithmetic type, and is rejected when \<open>X1\<close> is a node type (an
    empty struct, to which no number converts).
  \<^item> \<^verbatim>\<open>Inline< Sum<E1,E2> >::at\<close> (lines 106 to 114) is
    \<^verbatim>\<open>template <typename A> A at (A arg) { return Inline<E1>::at(arg) + Inline<E2>::at(arg) ; }\<close>
    and \<^verbatim>\<open>Inline< Prod<E1,E2> >::at\<close> (lines 117 to 124) the same with \<^verbatim>\<open>*\<close>.
  \<^item> \<^verbatim>\<open>Inline< I<i> >\<close> has no member \<^verbatim>\<open>at\<close>, and neither has the primary template
    (lines 84 to 86), so the call does not build.
\<close>

fun Inline_at :: "ctype \<Rightarrow> vtype \<Rightarrow> ('a::{plus,times} \<Rightarrow> 'a) build" where
  "Inline_at (Arg X1) A =
     (case X1 of
        Scalar T \<Rightarrow> if T = A then Built (\<lambda>arg. arg) else Converts
      | _ \<Rightarrow> BuildError)"
| "Inline_at (Sum E1 E2) A =
     both (Inline_at E1 A) (Inline_at E2 A) (\<lambda>at1 at2. (\<lambda>arg. at1 arg + at2 arg))"
| "Inline_at (Prod E1 E2) A =
     both (Inline_at E1 A) (Inline_at E2 A) (\<lambda>at1 at2. (\<lambda>arg. at1 arg * at2 arg))"
| "Inline_at (I i) A = BuildError"
| "Inline_at (Scalar T) A = BuildError"

text \<open>
  The call \<^verbatim>\<open>Inline<E>::at(v)\<close> as a whole: the instantiation, and when it builds, the
  built function run at \<open>v\<close>.
\<close>

definition Inline_at_call :: "ctype \<Rightarrow> vtype \<Rightarrow> 'a::{plus,times} \<Rightarrow> 'a build" where
  "Inline_at_call E A v =
     (case Inline_at E A of
        BuildError \<Rightarrow> BuildError
      | Converts \<Rightarrow> Converts
      | Built at \<Rightarrow> Built (at v))"

text \<open>
  The same instantiation with a bound on its nesting: \<open>k\<close> is the number of nested
  instantiations of \<^verbatim>\<open>Inline\<close> the compiler still allows (its template depth), and
  \<open>None\<close> says the bound was hit. The body of \<^verbatim>\<open>Inline< Sum<E1,E2> >::at\<close> names both
  \<^verbatim>\<open>Inline<E1>\<close> and \<^verbatim>\<open>Inline<E2>\<close>, and both are instantiated.
\<close>

fun Inline_at_within :: "nat \<Rightarrow> ctype \<Rightarrow> vtype \<Rightarrow> ('a::{plus,times} \<Rightarrow> 'a) build option" where
  "Inline_at_within 0 E A = None"
| "Inline_at_within (Suc k) (Arg X1) A =
     Some (case X1 of
        Scalar T \<Rightarrow> if T = A then Built (\<lambda>arg. arg) else Converts
      | _ \<Rightarrow> BuildError)"
| "Inline_at_within (Suc k) (Sum E1 E2) A =
     (case Inline_at_within k E1 A of
        None \<Rightarrow> None
      | Some r1 \<Rightarrow>
          (case Inline_at_within k E2 A of
             None \<Rightarrow> None
           | Some r2 \<Rightarrow> Some (both r1 r2 (\<lambda>at1 at2. (\<lambda>arg. at1 arg + at2 arg)))))"
| "Inline_at_within (Suc k) (Prod E1 E2) A =
     (case Inline_at_within k E1 A of
        None \<Rightarrow> None
      | Some r1 \<Rightarrow>
          (case Inline_at_within k E2 A of
             None \<Rightarrow> None
           | Some r2 \<Rightarrow> Some (both r1 r2 (\<lambda>at1 at2. (\<lambda>arg. at1 arg * at2 arg)))))"
| "Inline_at_within (Suc k) (I i) A = Some BuildError"
| "Inline_at_within (Suc k) (Scalar T) A = Some BuildError"

text \<open>
  The depth of an expression tree, counted in levels. \<^verbatim>\<open>Sum\<close> and \<^verbatim>\<open>Prod\<close> are the
  interior nodes; the parameter of \<^verbatim>\<open>Arg\<close> is its value type, not a sub-expression.
\<close>

fun tree_depth :: "ctype \<Rightarrow> nat" where
  "tree_depth (Sum E1 E2) = Suc (max (tree_depth E1) (tree_depth E2))"
| "tree_depth (Prod E1 E2) = Suc (max (tree_depth E1) (tree_depth E2))"
| "tree_depth _ = 1"

text \<open>
  The trees whose every leaf is an argument placeholder of an arithmetic type.
\<close>

fun arg_tree :: "ctype \<Rightarrow> bool" where
  "arg_tree (Arg (Scalar T)) = True"
| "arg_tree (Sum E1 E2) = (arg_tree E1 \<and> arg_tree E2)"
| "arg_tree (Prod E1 E2) = (arg_tree E1 \<and> arg_tree E2)"
| "arg_tree _ = False"

text \<open>
  The trees of the specification's lattice: every leaf is a constant or an argument
  placeholder of an arithmetic type.
\<close>

fun lattice_tree :: "ctype \<Rightarrow> bool" where
  "lattice_tree (I i) = True"
| "lattice_tree (Arg (Scalar T)) = True"
| "lattice_tree (Sum E1 E2) = (lattice_tree E1 \<and> lattice_tree E2)"
| "lattice_tree (Prod E1 E2) = (lattice_tree E1 \<and> lattice_tree E2)"
| "lattice_tree _ = False"

subsection \<open>The combinators\<close>

text \<open>
  A run-time object is given by its static type and its representation, a value of
  \<open>'r\<close>. \<^verbatim>\<open>Dummy<T>::value\<close> (lines 45 to 48) is one static object for each type \<open>T\<close>;
  the program never initialises it, so its representation is a parameter,
  \<open>Dummy_value\<close>.

  \<^verbatim>\<open>Exp<T>::operator *\<close> and \<^verbatim>\<open>Exp<T>::operator +\<close> (lines 52 to 66):
  \<^verbatim>\<open>template <typename M> Prod<T,M> operator * (M m) { (void)m ; return Dummy< Prod<T,M> >::value ; }\<close>
  The template places no requirement on \<open>M\<close>. The result is the returned object: its
  type and its representation.
\<close>

definition Exp_times :: "(ctype \<Rightarrow> 'r) \<Rightarrow> ctype \<Rightarrow> 'r \<Rightarrow> ctype \<Rightarrow> 'r \<Rightarrow> ctype \<times> 'r" where
  "Exp_times Dummy_value T this M m = (Prod T M, Dummy_value (Prod T M))"

definition Exp_plus :: "(ctype \<Rightarrow> 'r) \<Rightarrow> ctype \<Rightarrow> 'r \<Rightarrow> ctype \<Rightarrow> 'r \<Rightarrow> ctype \<times> 'r" where
  "Exp_plus Dummy_value T this M m = (Sum T M, Dummy_value (Sum T M))"

text \<open>
  \<^verbatim>\<open>lambda\<close> (lines 128 to 133):
  \<^verbatim>\<open>template <typename T, typename A> T lambda (A arg, T body) { ... return Dummy<T>::value ; }\<close>
\<close>

definition lambda :: "(ctype \<Rightarrow> 'r) \<Rightarrow> ctype \<Rightarrow> 'r \<Rightarrow> ctype \<Rightarrow> 'r \<Rightarrow> ctype \<times> 'r" where
  "lambda Dummy_value A arg T body = (T, Dummy_value T)"

subsection \<open>Numeric integration\<close>

text \<open>
  \<^verbatim>\<open>double\<close> is a type \<open>'d\<close> with the operations the code uses; no law of arithmetic is
  assumed of them, so what is proved holds for IEEE arithmetic as for any other.
  \<open>to_double\<close> is the conversion of the \<^verbatim>\<open>int\<close> \<open>n\<close> in \<^verbatim>\<open>(b - a) / n\<close>.

  \<^verbatim>\<open>square\<close> (lines 167 to 169).
\<close>

definition square :: "'d::times \<Rightarrow> 'd" where
  "square x = x * x"

text \<open>
  The loop of \<^verbatim>\<open>integrate_fp\<close> (lines 143 to 146), from the state \<open>(i, x, area)\<close>:
  \<^verbatim>\<open>for (int i = 0; i < n; ++i, x += delta) { double y = f(x) ; area += (y * delta) ; }\<close>
\<close>

function integrate_fp_loop ::
  "('d \<Rightarrow> 'd) \<Rightarrow> 'd::{plus,times} \<Rightarrow> cint \<Rightarrow> cint \<Rightarrow> 'd \<Rightarrow> 'd \<Rightarrow> 'd" where
  "integrate_fp_loop f delta n i x area =
     (if i <s n
      then let y = f x in integrate_fp_loop f delta n (i + 1) (x + delta) (area + y * delta)
      else area)"
  by pat_completeness auto

text \<open>
  The loop of \<^verbatim>\<open>integrate\<close> (lines 158 to 161), where \<open>at\<close> is what \<^verbatim>\<open>Inline<F>::at\<close>
  was built to:
  \<^verbatim>\<open>for (int i = 0; i < n; ++i, x += delta) { double y = Inline<F>::at(x) ; area += (y * delta) ; }\<close>
\<close>

function integrate_loop ::
  "('d \<Rightarrow> 'd) \<Rightarrow> 'd::{plus,times} \<Rightarrow> cint \<Rightarrow> cint \<Rightarrow> 'd \<Rightarrow> 'd \<Rightarrow> 'd" where
  "integrate_loop at delta n i x area =
     (if i <s n
      then let y = at x in integrate_loop at delta n (i + 1) (x + delta) (area + y * delta)
      else area)"
  by pat_completeness auto

text \<open>
  \<^verbatim>\<open>integrate_fp\<close> (lines 138 to 149).
\<close>

definition integrate_fp ::
  "(cint \<Rightarrow> 'd) \<Rightarrow> ('d \<Rightarrow> 'd) \<Rightarrow> 'd::{zero,plus,minus,times,divide} \<Rightarrow> 'd \<Rightarrow> cint \<Rightarrow> 'd" where
  "integrate_fp to_double f a b n =
     (let delta = divide (b - a) (to_double n);
          area = 0;
          x = a
      in integrate_fp_loop f delta n 0 x area)"

text \<open>
  \<^verbatim>\<open>integrate\<close> (lines 152 to 164), instantiated at the type \<open>F\<close>. Its first parameter,
  the marker object \<^verbatim>\<open>f\<close>, is never read and is left out. The instantiation builds when
  \<^verbatim>\<open>Inline<F>::at(x)\<close> does for the \<^verbatim>\<open>double\<close> \<open>x\<close>.
\<close>

definition integrate ::
  "(cint \<Rightarrow> 'd) \<Rightarrow> ctype \<Rightarrow> ('d::{zero,plus,minus,times,divide} \<Rightarrow> 'd \<Rightarrow> cint \<Rightarrow> 'd) build" where
  "integrate to_double F =
     (case Inline_at F TDouble of
        BuildError \<Rightarrow> BuildError
      | Converts \<Rightarrow> Converts
      | Built at \<Rightarrow>
          Built (\<lambda>a b n.
            let delta = divide (b - a) (to_double n);
                area = 0;
                x = a
            in integrate_loop at delta n 0 x area))"

subsection \<open>Termination of the loops\<close>

text \<open>Below \<open>n\<close>, the increment of the counter does not wrap.\<close>

lemma sint_succ_below:
  fixes i n :: cint
  assumes "i <s n"
  shows "sint (i + 1) = sint i + 1"
proof -
  from assms have lt: "sint i < sint n"
    by (simp add: word_sless_alt)
  have "sint n < 2 ^ 31"
    using sint_lt [of n] by simp
  moreover have "- (2 ^ 31) \<le> sint i"
    using sint_ge [of i] by simp
  ultimately have range: "- (2 ^ 31) \<le> sint i + 1 \<and> sint i + 1 < 2 ^ 31"
    using lt by arith
  have "sint (i + 1) = signed_take_bit 31 (sint i + 1)"
    by (simp add: sint_word_ariths)
  also have "\<dots> = sint i + 1"
    using range by (simp add: signed_take_bit_int_eq_self)
  finally show ?thesis .
qed

termination integrate_fp_loop
  by (relation "measure (\<lambda>(f, delta, n, i, x, area). nat (sint n - sint i))")
     (auto simp: sint_succ_below word_sless_alt)

termination integrate_loop
  by (relation "measure (\<lambda>(at, delta, n, i, x, area). nat (sint n - sint i))")
     (auto simp: sint_succ_below word_sless_alt)

text \<open>
  Each loop equation rewrites the loop to itself; it is applied by hand, one turn at a
  time.
\<close>

declare integrate_fp_loop.simps [simp del]

declare integrate_loop.simps [simp del]

section \<open>Properties\<close>

subsection \<open>Auxiliary facts\<close>

lemma both_BuildError_iff:
  "(both r1 r2 k = BuildError) = (r1 = BuildError \<or> r2 = BuildError)"
  by (cases r1; cases r2) simp_all

lemma both_Built_iff:
  "(both r1 r2 k = Built r) = (\<exists>f g. r1 = Built f \<and> r2 = Built g \<and> r = k f g)"
  by (cases r1; cases r2) auto

text \<open>
  The call \<^verbatim>\<open>Inline<E>::at(arg)\<close> is rejected exactly when some leaf of \<open>E\<close> is not an
  argument placeholder of an arithmetic type, and it is rejected whenever \<^verbatim>\<open>Inline<E>\<close>
  declares no \<^verbatim>\<open>at\<close>.
\<close>

lemma Inline_at_BuildError_iff:
  "((Inline_at E A :: ('a::{plus,times} \<Rightarrow> 'a) build) = BuildError) = (\<not> arg_tree E)"
proof (induction E)
  case (Arg X1)
  show ?case by (cases X1) simp_all
qed (simp_all add: both_BuildError_iff)

lemma Inline_at_no_member:
  assumes "Member_at \<notin> set (Inline_members E)"
  shows "Inline_at E A = BuildError"
  using assms by (cases E) simp_all

text \<open>The two integration loops run the same arithmetic.\<close>

lemma integrate_loop_eq_fp_loop:
  "integrate_loop f delta n i x area = integrate_fp_loop f delta n i x area"
proof (induction f delta n i x area rule: integrate_loop.induct)
  case (1 at delta n i x area)
  show ?case
  proof (cases "i <s n")
    case True
    with "1.IH" [OF True refl] show ?thesis
      by (subst integrate_loop.simps, subst integrate_fp_loop.simps) (simp add: Let_def)
  next
    case False
    then show ?thesis
      by (subst integrate_loop.simps, subst integrate_fp_loop.simps) simp
  qed
qed

lemma integrate_Built:
  assumes "Inline_at F TDouble = Built f"
  shows "integrate to_double F = Built (integrate_fp to_double f)"
  using assms
  by (simp add: integrate_def integrate_fp_def integrate_loop_eq_fp_loop fun_eq_iff)

subsection \<open>Specified properties\<close>

text \<open>
  C1. The resolver for the node type \<^verbatim>\<open>I<i>\<close> should expose \<^verbatim>\<open>at\<close>, ignore its argument
  and return \<open>i\<close>. The code gives it the single member \<^verbatim>\<open>int value (int)\<close>, which
  ignores its argument and returns \<open>i\<close>; it has no \<^verbatim>\<open>at\<close>, so \<^verbatim>\<open>Inline< I<i> >::at(v)\<close>
  does not build, for any \<open>i\<close> and any argument type.
\<close>

theorem Inline_I_value_not_at:
  "Inline_members (I i) = [Member_value] \<and>
   Inline_value (I i) = Built (\<lambda>arg. i) \<and>
   (Inline_at (I i) A :: ('a::{plus,times} \<Rightarrow> 'a) build) = BuildError \<and>
   (Inline_at_call (I i) A v :: ('a::{plus,times}) build) = BuildError"
  by (simp add: Inline_at_call_def)

text \<open>
  C2. Whenever \<open>E1\<close> and \<open>E2\<close> evaluate (to the functions \<open>f\<close> and \<open>g\<close> of the
  argument), \<open>Sum E1 E2\<close> evaluates at \<open>v\<close> to \<open>f v + g v\<close> and \<open>Prod E1 E2\<close> to
  \<open>f v * g v\<close>.
\<close>

theorem Inline_Sum_Prod_at:
  assumes "Inline_at E1 A = Built f" and "Inline_at E2 A = Built g"
  shows "Inline_at (Sum E1 E2) A = Built (\<lambda>v. f v + g v) \<and>
         Inline_at (Prod E1 E2) A = Built (\<lambda>v. f v * g v) \<and>
         Inline_at_call (Sum E1 E2) A v = Built (f v + g v) \<and>
         Inline_at_call (Prod E1 E2) A v = Built (f v * g v)"
  using assms by (simp add: Inline_at_call_def)

theorem Inline_Sum_Prod_at_witness:
  "Inline_at (Arg (Scalar TInt)) TInt = Built (\<lambda>v :: cint. v) \<and>
   Inline_at (Prod (Arg (Scalar TInt)) (Arg (Scalar TInt))) TInt = Built (\<lambda>v :: cint. v * v) \<and>
   Inline_at_call
     (Sum (Arg (Scalar TInt)) (Prod (Arg (Scalar TInt)) (Arg (Scalar TInt)))) TInt (3 :: cint)
     = Built 12 \<and>
   Inline_at_call
     (Prod (Arg (Scalar TInt)) (Prod (Arg (Scalar TInt)) (Arg (Scalar TInt)))) TInt (3 :: cint)
     = Built 27"
proof -
  have h1: "Inline_at (Arg (Scalar TInt)) TInt = Built (\<lambda>v :: cint. v)"
    by simp
  have h2: "Inline_at (Prod (Arg (Scalar TInt)) (Arg (Scalar TInt))) TInt
              = Built (\<lambda>v :: cint. v * v)"
    by simp
  from Inline_Sum_Prod_at [OF h1 h2, of 3] h1 h2 show ?thesis
    by simp
qed

text \<open>
  C3. For every argument value \<open>v\<close>, evaluating the argument placeholder at \<open>v\<close> returns
  \<open>v\<close> unchanged: at an argument of its value type, the resolver for \<^verbatim>\<open>Arg\<close> builds to
  the identity function.
\<close>

theorem Inline_Arg_identity:
  "Inline_at (Arg (Scalar A)) A = Built (\<lambda>v. v) \<and>
   Inline_at_call (Arg (Scalar A)) A v = Built v"
  by (simp add: Inline_at_call_def)

text \<open>
  C4. The expression built from \<^verbatim>\<open>x * x\<close> for an \<^verbatim>\<open>Arg<double> x\<close> has the type
  \<^verbatim>\<open>Prod<Arg<double>,Arg<double>>\<close>, and evaluating it at a \<^verbatim>\<open>double\<close> \<open>v\<close> is the
  hand-written \<^verbatim>\<open>square\<close>: the same multiplication of the same operands, so the same
  result, whatever the multiplication of \<^verbatim>\<open>double\<close> is.
\<close>

theorem Inline_Prod_Arg_Arg_square:
  "fst (Exp_times Dummy_value (Arg (Scalar TDouble)) x (Arg (Scalar TDouble)) x)
     = Prod (Arg (Scalar TDouble)) (Arg (Scalar TDouble)) \<and>
   Inline_at (Prod (Arg (Scalar TDouble)) (Arg (Scalar TDouble))) TDouble = Built square \<and>
   Inline_at_call (Prod (Arg (Scalar TDouble)) (Arg (Scalar TDouble))) TDouble v
     = Built (square v)"
  by (simp add: Exp_times_def Inline_at_call_def square_def fun_eq_iff)

text \<open>
  C5. The integration that resolves \<^verbatim>\<open>Prod<Arg<double>,Arg<double>>\<close> inline builds, and
  what it builds is \<^verbatim>\<open>integrate_fp\<close> applied to \<^verbatim>\<open>square\<close>: for every \<open>a\<close>, \<open>b\<close> and
  \<open>n\<close> the two run the same sequence of arithmetic operations and return the same
  \<^verbatim>\<open>double\<close>.
\<close>

theorem integrate_inline_eq_integrate_fp:
  "integrate to_double (Prod (Arg (Scalar TDouble)) (Arg (Scalar TDouble)))
     = Built (integrate_fp to_double square)"
  by (rule integrate_Built) (simp add: square_def fun_eq_iff)

text \<open>
  C6. The only build failure should be a type outside the four node shapes. The code
  also rejects a tree of the lattice that has a constant leaf: \<^verbatim>\<open>Sum<Arg<double>,I<1>>\<close>
  is built from \<^verbatim>\<open>Sum\<close>, \<^verbatim>\<open>Arg\<close> and \<^verbatim>\<open>I\<close> alone, and evaluating it at a \<^verbatim>\<open>double\<close> does
  not build, since \<^verbatim>\<open>Inline< I<1> >\<close> has no member \<^verbatim>\<open>at\<close>.
\<close>

theorem Inline_at_constant_leaf_BuildError:
  "lattice_tree (Sum (Arg (Scalar TDouble)) (I 1)) \<and>
   (Inline_at (Sum (Arg (Scalar TDouble)) (I 1)) TDouble :: ('a::{plus,times} \<Rightarrow> 'a) build)
     = BuildError \<and>
   (Inline_at_call (Sum (Arg (Scalar TDouble)) (I 1)) TDouble v :: ('a::{plus,times}) build)
     = BuildError"
  by (simp add: Inline_at_call_def)

text \<open>
  C7. The resolver terminates on every type, and its recursion is as deep as the
  expression tree: with \<open>k\<close> nested instantiations allowed it completes exactly when
  \<open>k\<close> is at least the depth of the tree, and then with the result of \<open>Inline_at\<close>.
\<close>

theorem Inline_at_within_tree_depth:
  "Inline_at_within k E A = (if tree_depth E \<le> k then Some (Inline_at E A) else None)"
proof (induction k arbitrary: E)
  case 0
  show ?case by (cases E) simp_all
next
  case (Suc k)
  show ?case
  proof (cases E)
    case (Sum E1 E2)
    with Suc.IH [of E1] Suc.IH [of E2] show ?thesis by simp
  next
    case (Prod E1 E2)
    with Suc.IH [of E1] Suc.IH [of E2] show ?thesis by simp
  qed simp_all
qed

text \<open>
  C8. The sum combinator returns an object of type \<^verbatim>\<open>Sum<T,M>\<close> and the product
  combinator one of type \<^verbatim>\<open>Prod<T,M>\<close>, and neither result depends on the run-time
  content of the two operands: two calls at the same operand types, with any operand
  objects, return the same.
\<close>

theorem Exp_combinators_ignore_operand_values:
  "fst (Exp_plus Dummy_value T this M m) = Sum T M \<and>
   fst (Exp_times Dummy_value T this M m) = Prod T M \<and>
   Exp_plus Dummy_value T this M m = Exp_plus Dummy_value T this' M m' \<and>
   Exp_times Dummy_value T this M m = Exp_times Dummy_value T this' M m'"
  by (simp add: Exp_plus_def Exp_times_def)

text \<open>
  C9. When \<open>EA\<close>, \<open>EB\<close> and \<open>EC\<close> evaluate at \<open>v\<close> to \<open>x\<close>, \<open>y\<close> and \<open>z\<close>, the two
  nestings of \<^verbatim>\<open>Sum\<close> evaluate to \<open>(x + y) + z\<close> and to \<open>x + (y + z)\<close>, as they are
  parenthesised; so they agree wherever the addition of the value type is associative
  at these three values.
\<close>

theorem Inline_Sum_assoc:
  assumes "Inline_at_call EA A v = Built x"
    and "Inline_at_call EB A v = Built y"
    and "Inline_at_call EC A v = Built z"
    and "(x + y) + z = x + (y + z)"
  shows "Inline_at_call (Sum (Sum EA EB) EC) A v = Built ((x + y) + z) \<and>
         Inline_at_call (Sum EA (Sum EB EC)) A v = Built (x + (y + z)) \<and>
         Inline_at_call (Sum (Sum EA EB) EC) A v = Inline_at_call (Sum EA (Sum EB EC)) A v"
  using assms
  by (auto simp: Inline_at_call_def split: build.splits)

theorem Inline_Sum_assoc_witness:
  "Inline_at_call (I 1) TInt (5 :: cint) = BuildError \<and>
   Inline_at_call (Arg (Scalar TInt)) TInt (5 :: cint) = Built 5 \<and>
   Inline_at_call (Prod (Arg (Scalar TInt)) (Arg (Scalar TInt))) TInt (5 :: cint) = Built 25 \<and>
   Inline_at_call
     (Sum (Sum (Arg (Scalar TInt)) (Prod (Arg (Scalar TInt)) (Arg (Scalar TInt))))
        (Arg (Scalar TInt))) TInt (5 :: cint) = Built 35 \<and>
   Inline_at_call
     (Sum (Arg (Scalar TInt)) (Sum (Prod (Arg (Scalar TInt)) (Arg (Scalar TInt)))
        (Arg (Scalar TInt)))) TInt (5 :: cint) = Built 35"
proof -
  have a: "Inline_at_call (Arg (Scalar TInt)) TInt (5 :: cint) = Built 5"
    by (simp add: Inline_at_call_def)
  have b: "Inline_at_call (Prod (Arg (Scalar TInt)) (Arg (Scalar TInt))) TInt (5 :: cint)
             = Built 25"
    by (simp add: Inline_at_call_def)
  have c: "((5 :: cint) + 25) + 5 = 5 + (25 + 5)"
    by simp
  have d: "Inline_at_call (I 1) TInt (5 :: cint) = BuildError"
    by (simp add: Inline_at_call_def)
  from Inline_Sum_assoc [OF a b a c] a b d show ?thesis
    by simp
qed

text \<open>
  C10. The combinators do not check their operand. For every \<open>T\<close> and every operand
  type \<open>M\<close>, a node type or not, they return the object \<^verbatim>\<open>Dummy< Sum<T,M> >::value\<close> (or
  \<^verbatim>\<open>Prod\<close>) of the combined type, and \<^verbatim>\<open>lambda\<close> passes that type on. When \<open>M\<close> is an
  arithmetic type, which is no node, the combined type is rejected only by the resolver,
  when it is evaluated.
\<close>

theorem Exp_combinators_accept_any_operand:
  "Exp_plus Dummy_value T this M m = (Sum T M, Dummy_value (Sum T M)) \<and>
   Exp_times Dummy_value T this M m = (Prod T M, Dummy_value (Prod T M)) \<and>
   lambda Dummy_value X arg (fst (Exp_plus Dummy_value T this M m)) body
     = (Sum T M, Dummy_value (Sum T M)) \<and>
   (Inline_at (fst (Exp_plus Dummy_value T this (Scalar S) m)) A
      :: ('a::{plus,times} \<Rightarrow> 'a) build) = BuildError \<and>
   (Inline_at (fst (Exp_times Dummy_value T this (Scalar S) m)) A
      :: ('a::{plus,times} \<Rightarrow> 'a) build) = BuildError"
  by (simp add: Exp_plus_def Exp_times_def lambda_def both_BuildError_iff)

end
